theory Spec2Isabelle
  imports Complex_Main "HOL-Library.Word"
begin

section \<open>AuraSight backend: inference, explanation and report pipeline\<close>

text \<open>
  A shallow embedding of \<^verbatim>\<open>backend/main.py\<close>. Python exceptions are values of
  \<open>exn\<close> on the left of a sum; Python's \<open>None\<close> is \<open>None\<close>. Floating-point
  scores are read as real numbers (exact arithmetic). The process-wide variable
  \<open>model\<close> is a reference into a heap of classifier objects, because the
  explanation step hands that reference to a library that may clone or modify the object
  behind it. The image codec, the resize kernel, the gradient computation, the colour
  table, the JPEG and base64 codecs and the PDF image parser belong to third-party
  libraries; they are parameters, collected in the records \<open>extern\<close> and
  \<open>pdf_extern\<close>.
\<close>

subsection \<open>Exceptions and sequencing\<close>

datatype exn =
    CvError          \<comment> \<open>\<^verbatim>\<open>cv2.error\<close>\<close>
  | ValueError
  | IndexError
  | KeyError
  | AttributeError
  | AttributionError \<comment> \<open>any exception raised inside the saliency computation\<close>
  | Base64Error      \<comment> \<open>\<^verbatim>\<open>binascii.Error\<close>\<close>
  | ImageError       \<comment> \<open>raised by \<^verbatim>\<open>FPDF.image\<close> on bytes it cannot parse\<close>

definition bind :: "exn + 'a \<Rightarrow> ('a \<Rightarrow> exn + 'b) \<Rightarrow> exn + 'b" where
  "bind m f = (case m of Inl e \<Rightarrow> Inl e | Inr x \<Rightarrow> f x)"

definition index :: "'a list \<Rightarrow> nat \<Rightarrow> exn + 'a" where
  \<comment> \<open>\<^verbatim>\<open>xs[i]\<close> for a non-negative \<open>i\<close>\<close>
  "index xs i = (if i < length xs then Inr (xs ! i) else Inl IndexError)"

subsection \<open>Images\<close>

type_synonym byte = "8 word"
type_synonym pixel = "byte \<times> byte \<times> byte"
type_synonym image = "pixel list"
type_synonym fpixel = "real \<times> real \<times> real"
type_synonym tensor = "fpixel list"

definition IMG_SIZE :: nat where
  "IMG_SIZE = 224"

definition NUM_CLASSES :: nat where
  "NUM_CLASSES = 5"

subsection \<open>The classifier\<close>

datatype activation = Softmax | Linear

text \<open>
  The network of \<open>build_model\<close>: a backbone followed by global average pooling (together
  \<open>backbone\<close>, a feature vector per image) and a dense head of \<open>units\<close> outputs with an
  activation.
\<close>

record classifier =
  backbone :: "tensor \<Rightarrow> real list"
  units :: nat
  head_activation :: activation
  kernel :: "nat \<Rightarrow> nat \<Rightarrow> real"
  bias :: "nat \<Rightarrow> real"

record weights =
  w_backbone :: "tensor \<Rightarrow> real list"
  w_kernel :: "nat \<Rightarrow> nat \<Rightarrow> real"
  w_bias :: "nat \<Rightarrow> real"

definition build_model :: "weights \<Rightarrow> classifier" where
  \<comment> \<open>the argument is the initial (unloaded) weight values\<close>
  "build_model init =
     \<lparr>backbone = w_backbone init, units = NUM_CLASSES, head_activation = Softmax,
      kernel = w_kernel init, bias = w_bias init\<rparr>"

definition load_weights :: "classifier \<Rightarrow> weights \<Rightarrow> classifier" where
  "load_weights m ws = m\<lparr>backbone := w_backbone ws, kernel := w_kernel ws, bias := w_bias ws\<rparr>"

definition dense :: "nat \<Rightarrow> (nat \<Rightarrow> nat \<Rightarrow> real) \<Rightarrow> (nat \<Rightarrow> real) \<Rightarrow> real list \<Rightarrow> real list" where
  "dense n k b x =
     map (\<lambda>j. sum_list (map (\<lambda>i. x ! i * k i j) [0..<length x]) + b j) [0..<n]"

definition softmax :: "real list \<Rightarrow> real list" where
  "softmax z = map (\<lambda>x. exp x / sum_list (map exp z)) z"

definition apply_activation :: "activation \<Rightarrow> real list \<Rightarrow> real list" where
  "apply_activation a z = (case a of Softmax \<Rightarrow> softmax z | Linear \<Rightarrow> z)"

definition forward :: "classifier \<Rightarrow> tensor \<Rightarrow> real list" where
  "forward m x = apply_activation (head_activation m) (dense (units m) (kernel m) (bias m) (backbone m x))"

definition predict :: "classifier \<Rightarrow> tensor list \<Rightarrow> real list list" where
  \<comment> \<open>\<^verbatim>\<open>model.predict\<close>: one score vector per element of the batch\<close>
  "predict m batch = map (forward m) batch"

subsection \<open>Process state\<close>

text \<open>
  \<open>heap\<close> holds the classifier objects, a reference is an index into it; \<open>model\<close> is
  the module-level variable, \<open>None\<close> after a failed start.
\<close>

record world =
  heap :: "classifier list"
  model :: "nat option"

definition startup :: "weights \<Rightarrow> weights option \<Rightarrow> world" where
  \<comment> \<open>the second argument is the content of the weight file, \<open>None\<close> when building or
      loading raises\<close>
  "startup init file =
     (case file of
        None \<Rightarrow> \<lparr>heap = [], model = None\<rparr>
      | Some ws \<Rightarrow> \<lparr>heap = [load_weights (build_model init) ws], model = Some 0\<rparr>)"

definition CLASS_NAMES :: "string list" where
  "CLASS_NAMES = [''No DR'', ''Mild'', ''Moderate'', ''Severe'', ''Proliferative DR'']"

subsection \<open>Third-party operations\<close>

record extern =
  cv2_imdecode :: "byte list \<Rightarrow> exn + image option"
    \<comment> \<open>\<open>Inr None\<close>: the buffer is not a decodable image; \<open>Inl\<close>: the call itself raises\<close>
  cv2_resize :: "image \<Rightarrow> nat \<times> nat \<Rightarrow> image"
  gradcam_call :: "classifier \<Rightarrow> nat list \<Rightarrow> tensor list \<Rightarrow> exn + real list list"
    \<comment> \<open>the saliency maps of a batch for the given target indices, computed on the given
        network, one value per pixel of the input\<close>
  colormap_jet :: "byte \<Rightarrow> pixel"
  cv2_imencode_jpg :: "image \<Rightarrow> byte list"
  b64encode :: "byte list \<Rightarrow> string"

subsection \<open>NumPy and OpenCV arithmetic written out\<close>

fun argmax_scan :: "real list \<Rightarrow> nat \<Rightarrow> nat \<Rightarrow> real \<Rightarrow> nat" where
  "argmax_scan [] i best v = best"
| "argmax_scan (x # xs) i best v =
     (if v < x then argmax_scan xs (Suc i) i x else argmax_scan xs (Suc i) best v)"

definition np_argmax :: "real list \<Rightarrow> exn + nat" where
  \<comment> \<open>the first position of the largest entry; an empty array raises\<close>
  "np_argmax xs = (case xs of [] \<Rightarrow> Inl ValueError | x # rest \<Rightarrow> Inr (argmax_scan rest 1 0 x))"

definition astype_uint8 :: "real \<Rightarrow> byte" where
  \<comment> \<open>truncation toward zero, then reduction modulo 256\<close>
  "astype_uint8 x = word_of_int (if 0 \<le> x then \<lfloor>x\<rfloor> else \<lceil>x\<rceil>)"

definition cvRound :: "real \<Rightarrow> int" where
  \<comment> \<open>nearest integer, a tie goes to the even one\<close>
  "cvRound x =
     (let f = \<lfloor>x\<rfloor> in
      if x - of_int f < 1 / 2 then f
      else if 1 / 2 < x - of_int f then f + 1
      else if even f then f else f + 1)"

definition saturate_uint8 :: "int \<Rightarrow> byte" where
  "saturate_uint8 i = word_of_int (max 0 (min 255 i))"

definition blend :: "real \<Rightarrow> real \<Rightarrow> real \<Rightarrow> byte \<Rightarrow> byte \<Rightarrow> byte" where
  "blend alpha beta gamma a b =
     saturate_uint8 (cvRound (real (unat a) * alpha + real (unat b) * beta + gamma))"

definition cv2_addWeighted :: "image \<Rightarrow> real \<Rightarrow> image \<Rightarrow> real \<Rightarrow> real \<Rightarrow> exn + image" where
  \<comment> \<open>\<open>dst = saturate (src1 * alpha + src2 * beta + gamma)\<close>, per channel; arrays of different
      size raise\<close>
  "cv2_addWeighted src1 alpha src2 beta gamma =
     (if length src1 = length src2
      then Inr (map (\<lambda>((a1, a2, a3), (b1, b2, b3)).
                  (blend alpha beta gamma a1 b1, blend alpha beta gamma a2 b2,
                   blend alpha beta gamma a3 b3)) (zip src1 src2))
      else Inl CvError)"

definition cvtColor_BGR2RGB :: "image option \<Rightarrow> exn + image" where
  \<comment> \<open>\<^verbatim>\<open>cv2.cvtColor(img, cv2.COLOR_BGR2RGB)\<close>; it raises on \<open>None\<close>\<close>
  "cvtColor_BGR2RGB img =
     (case img of None \<Rightarrow> Inl CvError | Some px \<Rightarrow> Inr (map (\<lambda>(b, g, r). (r, g, b)) px))"

subsection \<open>The attribution library\<close>

text \<open>
  Modelled from the spec: the constructor \<^verbatim>\<open>Gradcam(model, model_modifier, clone)\<close> and the
  modifier \<^verbatim>\<open>ReplaceToLinear\<close> of the package \<^verbatim>\<open>tf_keras_vis\<close>, which is not part of the
  repository. The spec describes them as replacing the final activation by a linear
  pass-through on a disposable clone. The modifier overwrites the activation of the object
  it is given; the constructor applies it to a fresh copy when \<open>clone\<close> is set and to
  the object itself otherwise, and returns the reference it keeps.
\<close>

definition clone_model :: "world \<Rightarrow> nat \<Rightarrow> nat \<times> world" where
  "clone_model w a = (length (heap w), w\<lparr>heap := heap w @ [heap w ! a]\<rparr>)"

definition ReplaceToLinear :: "world \<Rightarrow> nat \<Rightarrow> world" where
  "ReplaceToLinear w a = w\<lparr>heap := (heap w)[a := (heap w ! a)\<lparr>head_activation := Linear\<rparr>]\<rparr>"

definition Gradcam :: "world \<Rightarrow> nat option \<Rightarrow> (world \<Rightarrow> nat \<Rightarrow> world) \<Rightarrow> bool \<Rightarrow> (exn + nat) \<times> world" where
  "Gradcam w m model_modifier clone =
     (case m of
        None \<Rightarrow> (Inl AttributeError, w)
      | Some a \<Rightarrow>
          (let (a', w') = (if clone then clone_model w a else (a, w))
           in (Inr a', model_modifier w' a')))"

subsection \<open>Explanation image\<close>

definition generate_gradcam :: "extern \<Rightarrow> world \<Rightarrow> tensor list \<Rightarrow> nat \<Rightarrow> (exn + string) \<times> world" where
  "generate_gradcam ex w image_batch prediction_index =
     (let score = [prediction_index] in
      case Gradcam w (model w) ReplaceToLinear True of
        (Inl e, w') \<Rightarrow> (Inl e, w')
      | (Inr gradcam, w') \<Rightarrow>
          (bind (gradcam_call ex (heap w' ! gradcam) score image_batch) (\<lambda>heatmaps.
           bind (index heatmaps 0) (\<lambda>h0.
           let heatmap = map (\<lambda>v. astype_uint8 (v * 255)) h0 in
           bind (index image_batch 0) (\<lambda>i0.
           let original_image =
                 map (\<lambda>(r, g, b). (astype_uint8 (r * 255), astype_uint8 (g * 255),
                                    astype_uint8 (b * 255))) i0;
               heatmap_img = map (colormap_jet ex) heatmap in
           bind (cv2_addWeighted heatmap_img 0.4 original_image 0.6 0) (\<lambda>superimposed_img.
           let buffer = cv2_imencode_jpg ex superimposed_img in
           Inr (b64encode ex buffer))))), w'))"

subsection \<open>Prediction\<close>

definition preprocess_and_predict ::
  "extern \<Rightarrow> world \<Rightarrow> byte list \<Rightarrow> (exn + (real list \<times> string) option) \<times> world" where
  "preprocess_and_predict ex w image_bytes =
     (case model w of
        None \<Rightarrow> (Inr None, w)
      | Some a \<Rightarrow>
          (let nparr = image_bytes in
           case bind (cv2_imdecode ex nparr) cvtColor_BGR2RGB of
             Inl e \<Rightarrow> (Inl e, w)
           | Inr img \<Rightarrow>
               (let img_resized = cv2_resize ex img (IMG_SIZE, IMG_SIZE);
                    img_normalized =
                      map (\<lambda>(r, g, b). (real (unat r) / 255, real (unat g) / 255,
                                         real (unat b) / 255)) img_resized;
                    img_batch = [img_normalized]
                in case bind (index (predict (heap w ! a) img_batch) 0)
                          (\<lambda>prediction_array.
                             bind (np_argmax prediction_array)
                               (\<lambda>predicted_index. Inr (prediction_array, predicted_index))) of
                     Inl e \<Rightarrow> (Inl e, w)
                   | Inr (prediction_array, predicted_index) \<Rightarrow>
                       (case generate_gradcam ex w img_batch predicted_index of
                          (Inl e, w') \<Rightarrow> (Inl e, w')
                        | (Inr heatmap_base64, w') \<Rightarrow>
                            (Inr (Some (prediction_array, heatmap_base64)), w')))))"

subsection \<open>Formatting\<close>

definition digit :: "nat \<Rightarrow> char" where
  "digit d = ''0123456789'' ! d"

fun digits :: "nat \<Rightarrow> string" where
  "digits n = (if n < 10 then [digit n] else digits (n div 10) @ [digit (n mod 10)])"

definition format_2f :: "real \<Rightarrow> string" where
  \<comment> \<open>the format specification \<^verbatim>\<open>.2f\<close>: two decimals, nearest, a tie to the even digit\<close>
  "format_2f x =
     (let a = nat \<bar>cvRound (\<bar>x\<bar> * 100)\<bar> in
      (if x < 0 then ''-'' else []) @ digits (a div 100) @ ''.'' @
      [digit (a div 10 mod 10), digit (a mod 10)])"

subsection \<open>The prediction endpoint\<close>

record upload =
  filename :: string
  content :: "byte list"

datatype response =
    ErrorBody (error: string)
  | PredictionBody (resp_filename: string) (diagnosis: string) (confidence: string)
      (probabilities: "real list") (heatmap_image: string)

definition predict_image :: "extern \<Rightarrow> world \<Rightarrow> upload \<Rightarrow> (exn + response) \<times> world" where
  "predict_image ex w file =
     (let image_bytes = content file;
          (result, w') = preprocess_and_predict ex w image_bytes
      in (bind result (\<lambda>r.
            case r of
              None \<Rightarrow> Inr (ErrorBody ''Model not loaded or prediction failed'')
            | Some (prediction_array, heatmap) \<Rightarrow>
                bind (np_argmax prediction_array) (\<lambda>predicted_index.
                bind (index prediction_array predicted_index) (\<lambda>p.
                let confidence = p * 100 in
                bind (index CLASS_NAMES predicted_index) (\<lambda>label.
                Inr (PredictionBody (filename file) label (format_2f confidence @ ''%'')
                       (map (\<lambda>q. q * 100) prediction_array) heatmap))))), w'))"

subsection \<open>The report renderer\<close>












subsection \<open>Derived notions used in the statements\<close>

definition built :: "classifier \<Rightarrow> bool" where
  \<comment> \<open>the head has the shape \<open>build_model\<close> gives it\<close>
  "built m = (units m = NUM_CLASSES \<and> head_activation m = Softmax)"

definition img_batch_of :: "extern \<Rightarrow> image \<Rightarrow> tensor list" where
  \<comment> \<open>the batch \<open>preprocess_and_predict\<close> computes from a decoded frame\<close>
  "img_batch_of ex img =
     [map (\<lambda>(r, g, b). (real (unat r) / 255, real (unat g) / 255, real (unat b) / 255))
        (cv2_resize ex (map (\<lambda>(b, g, r). (r, g, b)) img) (IMG_SIZE, IMG_SIZE))]"






subsection \<open>The explanation image in the words of the specification\<close>

text \<open>
  ``Scale values to the 0--255 intensity range, apply the jet colour mapping to obtain a
  3-channel heat image, blend the heat image and the original (denormalised back to the
  0--255 byte range) with fixed weights, 40\% heat and 60\% original.'' The functions below
  say this directly, with the integer part for the scaling and the nearest integer for
  the blend; \<open>generate_gradcam\<close> is compared with them.
\<close>

definition intensity :: "real \<Rightarrow> byte" where
  "intensity v = of_nat (nat \<lfloor>v * 255\<rfloor>)"

definition weighted :: "byte \<Rightarrow> byte \<Rightarrow> byte" where
  "weighted h c = of_nat (nat (round (0.4 * real (unat h) + 0.6 * real (unat c))))"

definition spec_explanation_image :: "(byte \<Rightarrow> pixel) \<Rightarrow> real list \<Rightarrow> tensor \<Rightarrow> image" where
  "spec_explanation_image jet cam img =
     map (\<lambda>(s, (r, g, b)).
            (case jet (intensity s) of
               (h1, h2, h3) \<Rightarrow>
                 (weighted h1 (intensity r), weighted h2 (intensity g), weighted h3 (intensity b))))
       (zip cam img)"

subsection \<open>Concrete instances\<close>

definition graded_weights :: weights where
  "graded_weights =
     \<lparr>w_backbone = (\<lambda>t. []), w_kernel = (\<lambda>i j. 0),
      w_bias = (\<lambda>j. ln ([1, 2, 3, 4, 10] ! j))\<rparr>"

definition flat_weights :: weights where
  "flat_weights = \<lparr>w_backbone = (\<lambda>t. []), w_kernel = (\<lambda>i j. 0), w_bias = (\<lambda>j. 0)\<rparr>"

definition loaded_world :: world where
  "loaded_world = startup flat_weights (Some graded_weights)"

definition tied_world :: world where
  "tied_world = startup graded_weights (Some flat_weights)"

definition absent_world :: world where
  "absent_world = startup flat_weights None"

definition toy_extern :: extern where
  \<comment> \<open>a buffer starting with the JPEG marker decodes to one blue pixel; anything else that
      is not empty is rejected\<close>
  "toy_extern =
     \<lparr>cv2_imdecode = (\<lambda>bs. if bs = [] then Inl CvError
                            else if take 2 bs = [0xFF, 0xD8] then Inr (Some [(255, 0, 0)])
                            else Inr None),
      cv2_resize = (\<lambda>img size. img),
      gradcam_call = (\<lambda>m score batch. Inr (map (map (\<lambda>px. 1)) batch)),
      colormap_jet = (\<lambda>v. (0, 0, v)),
      cv2_imencode_jpg = (\<lambda>img. concat (map (\<lambda>(a, b, c). [a, b, c]) img)),
      b64encode = (\<lambda>bs. if bs = [] then [] else ''/9j/'')\<rparr>"

definition half_extern :: extern where
  \<comment> \<open>as \<open>toy_extern\<close>, with saliency one half everywhere\<close>
  "half_extern = toy_extern\<lparr>gradcam_call := (\<lambda>m score batch. Inr (map (map (\<lambda>px. 1 / 2)) batch))\<rparr>"

definition jpeg_upload :: upload where
  "jpeg_upload = \<lparr>filename = ''eye.jpg'', content = [0xFF, 0xD8, 0xFF]\<rparr>"

definition text_upload :: upload where
  \<comment> \<open>the ASCII text \<^verbatim>\<open>hello\<close>\<close>
  "text_upload = \<lparr>filename = ''notes.txt'', content = [0x68, 0x65, 0x6C, 0x6C, 0x6F]\<rparr>"



section \<open>The first maximum\<close>

lemma argmax_scan_spec:
  "b < length pre \<Longrightarrow> v = pre ! b \<Longrightarrow> (\<forall>j<length pre. pre ! j \<le> v) \<Longrightarrow>
   (\<forall>j<b. pre ! j < v) \<Longrightarrow> i = length pre \<Longrightarrow>
   argmax_scan xs i b v < length (pre @ xs) \<and>
   (\<forall>j<length (pre @ xs). (pre @ xs) ! j \<le> (pre @ xs) ! argmax_scan xs i b v) \<and>
   (\<forall>j<argmax_scan xs i b v. (pre @ xs) ! j < (pre @ xs) ! argmax_scan xs i b v)"
proof (induction xs arbitrary: pre b v i)
  case Nil
  then show ?case by simp
next
  case (Cons x xs)
  show ?case
  proof (cases "v < x")
    case True
    have a: "length pre < length (pre @ [x])" by simp
    have b: "x = (pre @ [x]) ! length pre" by simp
    have c: "\<forall>j<length (pre @ [x]). (pre @ [x]) ! j \<le> x"
      using Cons.prems True by (auto simp: nth_append less_Suc_eq)
    have d: "\<forall>j<length pre. (pre @ [x]) ! j < x"
      using Cons.prems True by (auto simp: nth_append)
    have e: "Suc i = length (pre @ [x])" using Cons.prems by simp
    from Cons.IH[OF a b c d e] True Cons.prems(5) show ?thesis by simp
  next
    case False
    have a: "b < length (pre @ [x])" using Cons.prems by simp
    have b: "v = (pre @ [x]) ! b" using Cons.prems by (simp add: nth_append)
    have c: "\<forall>j<length (pre @ [x]). (pre @ [x]) ! j \<le> v"
      using Cons.prems False by (auto simp: nth_append less_Suc_eq)
    have d: "\<forall>j<b. (pre @ [x]) ! j < v"
      using Cons.prems by (auto simp: nth_append)
    have e: "Suc i = length (pre @ [x])" using Cons.prems by simp
    from Cons.IH[OF a b c d e] False Cons.prems(5) show ?thesis by simp
  qed
qed

lemma np_argmax_spec:
  assumes "xs \<noteq> []"
  shows "\<exists>k. np_argmax xs = Inr k \<and> k < length xs \<and> (\<forall>j<length xs. xs ! j \<le> xs ! k) \<and>
             (\<forall>j<k. xs ! j < xs ! k)"
proof -
  obtain x rest where xs: "xs = x # rest" using assms by (cases xs) auto
  have "argmax_scan rest 1 0 x < length ([x] @ rest) \<and>
   (\<forall>j<length ([x] @ rest). ([x] @ rest) ! j \<le> ([x] @ rest) ! argmax_scan rest 1 0 x) \<and>
   (\<forall>j<argmax_scan rest 1 0 x. ([x] @ rest) ! j < ([x] @ rest) ! argmax_scan rest 1 0 x)"
    by (rule argmax_scan_spec) simp_all
  then show ?thesis by (simp add: xs np_argmax_def)
qed

lemma first_max_unique:
  fixes xs :: "real list"
  assumes "k < length xs" "\<forall>j<length xs. xs ! j \<le> xs ! k" "\<forall>j<k. xs ! j \<noteq> xs ! k"
      and "k' < length xs" "\<forall>j<length xs. xs ! j \<le> xs ! k'" "\<forall>j<k'. xs ! j \<noteq> xs ! k'"
  shows "k = k'"
proof -
  have eq: "xs ! k = xs ! k'" using assms by (meson order_antisym)
  show ?thesis
  proof (rule ccontr)
    assume "k \<noteq> k'"
    then consider "k < k'" | "k' < k" by linarith
    then show False using assms eq by cases auto
  qed
qed

lemma np_argmax_first_max:
  assumes "k < length xs" "\<forall>j<length xs. xs ! j \<le> xs ! k" "\<forall>j<k. xs ! j \<noteq> xs ! k"
  shows "np_argmax xs = Inr k"
proof -
  have "xs \<noteq> []" using assms by auto
  from np_argmax_spec[OF this] obtain k' where k': "np_argmax xs = Inr k'" "k' < length xs"
     "\<forall>j<length xs. xs ! j \<le> xs ! k'" "\<forall>j<k'. xs ! j < xs ! k'" by blast
  have "\<forall>j<k'. xs ! j \<noteq> xs ! k'" using k'(4) by fastforce
  from first_max_unique[OF assms k'(2,3) this] show ?thesis using k'(1) by simp
qed

lemma np_argmax_Max:
  assumes "np_argmax xs = Inr k"
  shows "k < length xs \<and> xs ! k = Max (set xs)"
proof -
  have ne: "xs \<noteq> []" using assms by (auto simp: np_argmax_def)
  from np_argmax_spec[OF ne] assms have k: "k < length xs" "\<forall>j<length xs. xs ! j \<le> xs ! k" by auto
  have "Max (set xs) = xs ! k"
  proof (rule Max_eqI)
    show "finite (set xs)" by simp
    show "\<And>y. y \<in> set xs \<Longrightarrow> y \<le> xs ! k" using k(2) by (auto simp: in_set_conv_nth)
    show "xs ! k \<in> set xs" using k(1) by simp
  qed
  with k show ?thesis by simp
qed

section \<open>The classifier's output is a distribution\<close>

lemma forward_length: "length (forward m x) = units m"
  by (cases "head_activation m") (simp_all add: forward_def apply_activation_def softmax_def dense_def)







lemma built_load: "built (load_weights (build_model init) ws)"
  by (simp add: built_def load_weights_def build_model_def)

section \<open>The request, step by step\<close>

lemma preprocess_no_model:
  "model w = None \<Longrightarrow> preprocess_and_predict ex w bs = (Inr None, w)"
  by (simp add: preprocess_and_predict_def)

lemma preprocess_decoded:
  assumes "model w = Some a" and "cv2_imdecode ex bs = Inr (Some img)"
      and "predict (heap w ! a) (img_batch_of ex img) = [probs]"
      and "np_argmax probs = Inr k"
  shows "preprocess_and_predict ex w bs =
           (case generate_gradcam ex w (img_batch_of ex img) k of
              (Inl e, w') \<Rightarrow> (Inl e, w')
            | (Inr h, w') \<Rightarrow> (Inr (Some (probs, h)), w'))"
  using assms
  by (simp add: preprocess_and_predict_def bind_def cvtColor_BGR2RGB_def index_def
      img_batch_of_def Let_def predict_def)

lemma predict_singleton: "predict m (img_batch_of ex img) = [forward m (hd (img_batch_of ex img))]"
  by (simp add: predict_def img_batch_of_def)

lemma predict_image_decoded:
  assumes "model w = Some a" and "cv2_imdecode ex (content file) = Inr (Some img)"
      and "predict (heap w ! a) (img_batch_of ex img) = [probs]"
      and "np_argmax probs = Inr k" and "k < length CLASS_NAMES"
  shows "predict_image ex w file =
           (case generate_gradcam ex w (img_batch_of ex img) k of
              (Inl e, w') \<Rightarrow> (Inl e, w')
            | (Inr h, w') \<Rightarrow>
                (Inr (PredictionBody (filename file) (CLASS_NAMES ! k)
                        (format_2f (probs ! k * 100) @ ''%'') (map (\<lambda>q. q * 100) probs) h), w'))"
proof -
  have k: "k < length probs" using np_argmax_Max[OF assms(4)] by simp
  show ?thesis
    using k assms(5)
    by (simp add: predict_image_def preprocess_decoded[OF assms(1-4)] bind_def index_def
        assms(4) split: prod.splits sum.splits)
qed

lemma built_probs:
  assumes "built m"
  shows "\<exists>probs k. predict m (img_batch_of ex img) = [probs] \<and> length probs = NUM_CLASSES \<and>
           np_argmax probs = Inr k \<and> k < NUM_CLASSES \<and> probs ! k = Max (set probs)"
proof -
  let ?p = "forward m (hd (img_batch_of ex img))"
  have len: "length ?p = NUM_CLASSES" using assms by (simp add: forward_length built_def)
  then have "?p \<noteq> []" by (auto simp: NUM_CLASSES_def)
  from np_argmax_spec[OF this] obtain k where k: "np_argmax ?p = Inr k" by blast
  from np_argmax_Max[OF k] len have "k < NUM_CLASSES" "?p ! k = Max (set ?p)" by simp_all
  with len k predict_singleton[of m ex img] show ?thesis by blast
qed

lemma length_CLASS_NAMES: "length CLASS_NAMES = NUM_CLASSES"
  by (simp add: CLASS_NAMES_def NUM_CLASSES_def)

section \<open>The concrete instances, evaluated\<close>

lemma loaded_world_eq:
  "loaded_world = \<lparr>heap = [load_weights (build_model flat_weights) graded_weights], model = Some 0\<rparr>"
  by (simp add: loaded_world_def startup_def)

lemma graded_forward:
  "forward (load_weights (build_model flat_weights) graded_weights) x = [1/20, 1/10, 3/20, 1/5, 1/2]"
  by (simp add: forward_def load_weights_def build_model_def graded_weights_def
      apply_activation_def softmax_def dense_def NUM_CLASSES_def upt_rec)

lemma flat_forward:
  "forward (load_weights (build_model graded_weights) flat_weights) x = [1/5, 1/5, 1/5, 1/5, 1/5]"
  by (simp add: forward_def load_weights_def build_model_def flat_weights_def
      apply_activation_def softmax_def dense_def NUM_CLASSES_def upt_rec)

lemma toy_batch: "img_batch_of toy_extern [(255, 0, 0)] = [[(0, 0, 1)]]"
  by (simp add: img_batch_of_def toy_extern_def)

lemma cvRound_of_int: "cvRound (of_int n) = n"
  by (simp add: cvRound_def)

lemma toy_gradcam:
  "generate_gradcam toy_extern loaded_world [[(0, 0, 1)]] k =
     (Inr ''/9j/'', loaded_world\<lparr>heap := heap loaded_world @ [(heap loaded_world ! 0)\<lparr>head_activation := Linear\<rparr>]\<rparr>)"
  by (simp add: generate_gradcam_def Gradcam_def clone_model_def ReplaceToLinear_def loaded_world_eq
     toy_extern_def bind_def index_def astype_uint8_def cv2_addWeighted_def blend_def saturate_uint8_def)

lemma loaded_world_model: "model loaded_world = Some 0"
  by (simp add: loaded_world_eq)

lemma loaded_world_built: "built (heap loaded_world ! 0)"
  by (simp add: loaded_world_eq built_load)

lemma toy_decode_jpeg: "cv2_imdecode toy_extern (content jpeg_upload) = Inr (Some [(255, 0, 0)])"
  by (simp add: toy_extern_def jpeg_upload_def)

lemma loaded_predict: "predict (heap loaded_world ! 0) [[(0, 0, 1)]] = [[1/20, 1/10, 3/20, 1/5, 1/2]]"
  by (simp add: predict_def loaded_world_eq graded_forward)

lemma graded_argmax: "np_argmax [1/20, 1/10, 3/20, 1/5, 1/2] = Inr 4"
  by (simp add: np_argmax_def)

lemma absent_world_model: "model absent_world = None"
  by (simp add: absent_world_def startup_def)

section \<open>The predicted index\<close>

text \<open>
  C1. In every request with a loaded classifier and a decodable upload there is one index
  \<open>k\<close>, the argmax of the probability vector the classifier returns for the request, such
  that the attribution step is invoked with target \<open>k\<close>, the diagnosis is the class name at
  \<open>k\<close> and the confidence is the formatted probability at \<open>k\<close>.
\<close>

theorem predicted_index_is_argmax:
  assumes "model w = Some a" and "built (heap w ! a)"
      and "cv2_imdecode ex (content file) = Inr (Some img)"
  shows "\<exists>probs k.
           predict (heap w ! a) (img_batch_of ex img) = [probs] \<and>
           np_argmax probs = Inr k \<and> probs ! k = Max (set probs) \<and>
           predict_image ex w file =
             (case generate_gradcam ex w (img_batch_of ex img) k of
                (Inl e, w') \<Rightarrow> (Inl e, w')
              | (Inr h, w') \<Rightarrow>
                  (Inr (PredictionBody (filename file) (CLASS_NAMES ! k)
                          (format_2f (probs ! k * 100) @ ''%'') (map (\<lambda>q. q * 100) probs) h), w'))"
proof -
  from built_probs[OF assms(2)] obtain probs k where
    p: "predict (heap w ! a) (img_batch_of ex img) = [probs]" "np_argmax probs = Inr k"
       "k < NUM_CLASSES" "probs ! k = Max (set probs)" by blast
  have "k < length CLASS_NAMES" using p(3) by (simp add: length_CLASS_NAMES)
  from predict_image_decoded[OF assms(1) assms(3) p(1) p(2) this] p show ?thesis by blast
qed

theorem predicted_index_is_argmax_witness:
  "model loaded_world = Some 0 \<and> built (heap loaded_world ! 0) \<and>
   cv2_imdecode toy_extern (content jpeg_upload) = Inr (Some [(255, 0, 0)]) \<and>
   np_argmax [1/20, 1/10, 3/20, 1/5, 1/2] = Inr 4 \<and>
   fst (predict_image toy_extern loaded_world jpeg_upload) =
     Inr (PredictionBody ''eye.jpg'' ''Proliferative DR'' ''50.00%'' [5, 10, 15, 20, 50] ''/9j/'')"
proof -
  have name: "filename jpeg_upload = ''eye.jpg''" by (simp add: jpeg_upload_def)
  have "fst (predict_image toy_extern loaded_world jpeg_upload) =
     Inr (PredictionBody ''eye.jpg'' ''Proliferative DR'' ''50.00%'' [5, 10, 15, 20, 50] ''/9j/'')"
    using predicted_index_is_argmax[OF loaded_world_model loaded_world_built toy_decode_jpeg]
    by (simp add: toy_batch loaded_predict graded_argmax toy_gradcam CLASS_NAMES_def
        format_2f_def cvRound_def digit_def name)
  then show ?thesis
    by (simp add: loaded_world_model loaded_world_built toy_decode_jpeg graded_argmax)
qed

section \<open>Absent classifier\<close>

text \<open>
  C3. When the process-wide classifier is absent, the prediction endpoint answers every
  upload with the error body ``Model not loaded or prediction failed'': it returns a value,
  raises no exception and leaves the process state as it was.
\<close>

theorem absent_model_returns_error:
  "model w = None \<Longrightarrow>
   predict_image ex w file = (Inr (ErrorBody ''Model not loaded or prediction failed''), w)"
  by (simp add: predict_image_def preprocess_no_model bind_def)

theorem absent_model_returns_error_witness:
  "model absent_world = None \<and>
   predict_image toy_extern absent_world jpeg_upload =
     (Inr (ErrorBody ''Model not loaded or prediction failed''), absent_world)"
  using absent_model_returns_error[OF absent_world_model, of toy_extern jpeg_upload]
  by (simp add: absent_world_model)

section \<open>The diagnosis label\<close>

text \<open>
  C9. With a loaded classifier and a decodable upload the probability vector has length 5,
  its argmax is below 5, so the lookup in \<open>CLASS_NAMES\<close> is in bounds (no
  \<open>IndexError\<close>), and a returned diagnosis is one of the five fixed labels.
\<close>

theorem diagnosis_in_class_names:
  assumes "model w = Some a" and "built (heap w ! a)"
      and "cv2_imdecode ex (content file) = Inr (Some img)"
  shows "\<exists>probs k.
           predict (heap w ! a) (img_batch_of ex img) = [probs] \<and> length probs = 5 \<and>
           np_argmax probs = Inr k \<and> k < 5 \<and> index CLASS_NAMES k = Inr (CLASS_NAMES ! k) \<and>
           (\<forall>r w'. predict_image ex w file = (Inr r, w') \<longrightarrow>
              diagnosis r = CLASS_NAMES ! k \<and>
              diagnosis r \<in> {''No DR'', ''Mild'', ''Moderate'', ''Severe'', ''Proliferative DR''})"
proof -
  from built_probs[OF assms(2)] obtain probs k where
    p: "predict (heap w ! a) (img_batch_of ex img) = [probs]" "length probs = NUM_CLASSES"
       "np_argmax probs = Inr k" "k < NUM_CLASSES" by blast
  have kc: "k < length CLASS_NAMES" using p(4) by (simp add: length_CLASS_NAMES)
  have mem: "CLASS_NAMES ! k \<in> {''No DR'', ''Mild'', ''Moderate'', ''Severe'', ''Proliferative DR''}"
    using nth_mem[OF kc] by (simp add: CLASS_NAMES_def)
  have "\<forall>r w'. predict_image ex w file = (Inr r, w') \<longrightarrow>
              diagnosis r = CLASS_NAMES ! k \<and>
              diagnosis r \<in> {''No DR'', ''Mild'', ''Moderate'', ''Severe'', ''Proliferative DR''}"
    using mem
    by (auto simp: predict_image_decoded[OF assms(1) assms(3) p(1) p(3) kc]
        split: prod.splits sum.splits)
  with p kc show ?thesis by (auto simp: index_def NUM_CLASSES_def)
qed

lemma toy_predict_image:
  "predict_image toy_extern loaded_world jpeg_upload =
     (Inr (PredictionBody ''eye.jpg'' ''Proliferative DR'' ''50.00%'' [5, 10, 15, 20, 50] ''/9j/''),
      loaded_world\<lparr>heap := heap loaded_world @ [(heap loaded_world ! 0)\<lparr>head_activation := Linear\<rparr>]\<rparr>)"
proof -
  have name: "filename jpeg_upload = ''eye.jpg''" by (simp add: jpeg_upload_def)
  have k: "(4::nat) < length CLASS_NAMES" by (simp add: CLASS_NAMES_def)
  have p: "predict (heap loaded_world ! 0) (img_batch_of toy_extern [(255, 0, 0)]) = [[1/20, 1/10, 3/20, 1/5, 1/2]]"
    by (simp add: toy_batch loaded_predict)
  show ?thesis
    by (simp add: predict_image_decoded[OF loaded_world_model toy_decode_jpeg p graded_argmax k]
        toy_batch toy_gradcam CLASS_NAMES_def format_2f_def cvRound_def digit_def name)
qed

theorem diagnosis_in_class_names_witness:
  "model loaded_world = Some 0 \<and> built (heap loaded_world ! 0) \<and>
   cv2_imdecode toy_extern (content jpeg_upload) = Inr (Some [(255, 0, 0)]) \<and>
   length [1/20, 1/10, 3/20, 1/5, 1/2 :: real] = 5 \<and>
   np_argmax [1/20, 1/10, 3/20, 1/5, 1/2] = Inr 4 \<and> (4::nat) < 5 \<and>
   index CLASS_NAMES 4 = Inr ''Proliferative DR'' \<and>
   diagnosis (projr (fst (predict_image toy_extern loaded_world jpeg_upload))) = ''Proliferative DR''"
proof -
  from diagnosis_in_class_names[OF loaded_world_model loaded_world_built toy_decode_jpeg]
  obtain probs k where
    pk: "predict (heap loaded_world ! 0) (img_batch_of toy_extern [(255, 0, 0)]) = [probs]"
    "np_argmax probs = Inr k" "index CLASS_NAMES k = Inr (CLASS_NAMES ! k)"
    "\<forall>r w'. predict_image toy_extern loaded_world jpeg_upload = (Inr r, w') \<longrightarrow>
              diagnosis r = CLASS_NAMES ! k" by blast
  have probs: "probs = [1/20, 1/10, 3/20, 1/5, 1/2]"
    using pk(1) by (simp add: toy_batch loaded_predict)
  have k: "k = 4" using pk(2) by (simp add: probs graded_argmax)
  have "index CLASS_NAMES 4 = Inr ''Proliferative DR''"
    using pk(3) by (simp add: k CLASS_NAMES_def)
  moreover have "diagnosis (projr (fst (predict_image toy_extern loaded_world jpeg_upload))) = ''Proliferative DR''"
    using pk(4) by (simp add: k toy_predict_image CLASS_NAMES_def)
  ultimately show ?thesis
    by (simp add: loaded_world_model loaded_world_built toy_decode_jpeg graded_argmax)
qed

section \<open>Ties\<close>

text \<open>
  C10. When \<open>k\<close> is the smallest index that carries the maximum probability (every entry
  is at most the one at \<open>k\<close>, and no earlier entry equals it), \<open>np_argmax\<close> returns
  \<open>k\<close>; the computation in \<open>preprocess_and_predict\<close> hands \<open>k\<close> to the attribution
  step and the one in \<open>predict_image\<close> uses the same \<open>k\<close> for label and confidence.
\<close>

theorem tie_resolves_to_first_maximum:
  assumes "model w = Some a" and "built (heap w ! a)"
      and "cv2_imdecode ex (content file) = Inr (Some img)"
      and "predict (heap w ! a) (img_batch_of ex img) = [probs]"
      and "k < length probs" and "\<forall>j<length probs. probs ! j \<le> probs ! k"
      and "\<forall>j<k. probs ! j \<noteq> probs ! k"
  shows "np_argmax probs = Inr k \<and>
         preprocess_and_predict ex w (content file) =
           (case generate_gradcam ex w (img_batch_of ex img) k of
              (Inl e, w') \<Rightarrow> (Inl e, w')
            | (Inr h, w') \<Rightarrow> (Inr (Some (probs, h)), w')) \<and>
         predict_image ex w file =
           (case generate_gradcam ex w (img_batch_of ex img) k of
              (Inl e, w') \<Rightarrow> (Inl e, w')
            | (Inr h, w') \<Rightarrow>
                (Inr (PredictionBody (filename file) (CLASS_NAMES ! k)
                        (format_2f (probs ! k * 100) @ ''%'') (map (\<lambda>q. q * 100) probs) h), w'))"
proof -
  have am: "np_argmax probs = Inr k" by (rule np_argmax_first_max[OF assms(5-7)])
  have "probs = forward (heap w ! a) (hd (img_batch_of ex img))"
    using assms(4) by (simp add: predict_singleton)
  then have "length probs = NUM_CLASSES" using assms(2) by (simp add: forward_length built_def)
  then have kc: "k < length CLASS_NAMES" using assms(5) by (simp add: length_CLASS_NAMES)
  show ?thesis
    using am preprocess_decoded[OF assms(1) assms(3) assms(4) am]
      predict_image_decoded[OF assms(1) assms(3) assms(4) am kc] by simp
qed

lemma tied_world_eq:
  "tied_world = \<lparr>heap = [load_weights (build_model graded_weights) flat_weights], model = Some 0\<rparr>"
  by (simp add: tied_world_def startup_def)

lemma tied_world_model: "model tied_world = Some 0"
  by (simp add: tied_world_eq)

lemma tied_world_built: "built (heap tied_world ! 0)"
  by (simp add: tied_world_eq built_load)

lemma tied_predict:
  "predict (heap tied_world ! 0) (img_batch_of toy_extern [(255, 0, 0)]) = [[1/5, 1/5, 1/5, 1/5, 1/5]]"
  by (simp add: predict_def tied_world_eq flat_forward toy_batch)

lemma tied_gradcam:
  "generate_gradcam toy_extern tied_world [[(0, 0, 1)]] k =
     (Inr ''/9j/'', tied_world\<lparr>heap := heap tied_world @ [(heap tied_world ! 0)\<lparr>head_activation := Linear\<rparr>]\<rparr>)"
  by (simp add: generate_gradcam_def Gradcam_def clone_model_def ReplaceToLinear_def tied_world_eq
     toy_extern_def bind_def index_def astype_uint8_def cv2_addWeighted_def blend_def saturate_uint8_def)

theorem tie_resolves_to_first_maximum_witness:
  "model tied_world = Some 0 \<and> built (heap tied_world ! 0) \<and>
   cv2_imdecode toy_extern (content jpeg_upload) = Inr (Some [(255, 0, 0)]) \<and>
   predict (heap tied_world ! 0) (img_batch_of toy_extern [(255, 0, 0)]) = [[1/5, 1/5, 1/5, 1/5, 1/5]] \<and>
   np_argmax [1/5, 1/5, 1/5, 1/5, 1/5] = Inr 0 \<and>
   fst (preprocess_and_predict toy_extern tied_world (content jpeg_upload)) =
     Inr (Some ([1/5, 1/5, 1/5, 1/5, 1/5], ''/9j/'')) \<and>
   fst (predict_image toy_extern tied_world jpeg_upload) =
     Inr (PredictionBody ''eye.jpg'' ''No DR'' ''20.00%'' [20, 20, 20, 20, 20] ''/9j/'')"
proof -
  have name: "filename jpeg_upload = ''eye.jpg''" by (simp add: jpeg_upload_def)
  have a: "(0::nat) < length [1/5, 1/5, 1/5, 1/5, 1/5 :: real]" by simp
  have b: "\<forall>j<length [1/5, 1/5, 1/5, 1/5, 1/5 :: real]. [1/5, 1/5, 1/5, 1/5, 1/5 :: real] ! j \<le> [1/5, 1/5, 1/5, 1/5, 1/5] ! 0"
    by (simp add: nth_Cons split: nat.split)
  have c: "\<forall>j<(0::nat). [1/5, 1/5, 1/5, 1/5, 1/5 :: real] ! j \<noteq> [1/5, 1/5, 1/5, 1/5, 1/5] ! 0"
    by simp
  from tie_resolves_to_first_maximum[OF tied_world_model tied_world_built toy_decode_jpeg
      tied_predict a b c]
  have "np_argmax [1/5, 1/5, 1/5, 1/5, 1/5] = Inr 0 \<and>
   fst (preprocess_and_predict toy_extern tied_world (content jpeg_upload)) =
     Inr (Some ([1/5, 1/5, 1/5, 1/5, 1/5], ''/9j/'')) \<and>
   fst (predict_image toy_extern tied_world jpeg_upload) =
     Inr (PredictionBody ''eye.jpg'' ''No DR'' ''20.00%'' [20, 20, 20, 20, 20] ''/9j/'')"
    by (simp add: toy_batch tied_gradcam CLASS_NAMES_def format_2f_def cvRound_def digit_def name)
  then show ?thesis
    by (simp add: tied_world_model tied_world_built toy_decode_jpeg tied_predict)
qed


section \<open>The packaged result\<close>



section \<open>Undecodable uploads\<close>

lemma undecodable_raises:
  assumes "model w = Some a" and "cv2_imdecode ex (content file) = Inr None"
  shows "predict_image ex w file = (Inl CvError, w)"
  using assms
  by (simp add: predict_image_def preprocess_and_predict_def bind_def cvtColor_BGR2RGB_def)

lemma toy_decode_text: "cv2_imdecode toy_extern (content text_upload) = Inr None"
  by (simp add: toy_extern_def text_upload_def)

text \<open>
  C2. The claim asks for an error result on bytes that are no image. With a loaded
  classifier the code does not do so: \<^verbatim>\<open>cv2.imdecode\<close> returns \<open>None\<close> on the text
  \<^verbatim>\<open>hello\<close>, \<^verbatim>\<open>cv2.cvtColor\<close> raises on it, and neither function of the request
  handles the exception, so it leaves \<open>predict_image\<close>.
\<close>

theorem undecodable_upload_raises:
  "predict_image toy_extern loaded_world text_upload = (Inl CvError, loaded_world)"
  by (rule undecodable_raises[OF loaded_world_model toy_decode_text])

section \<open>Order of the guard and the decoder\<close>

text \<open>
  C4, as stated, fails: with an absent classifier and bytes that are no image the result is
  the error body of the absent classifier, not a decoding failure.
\<close>

theorem absent_model_malformed_counterexample:
  "model absent_world = None \<and> cv2_imdecode toy_extern (content text_upload) = Inr None \<and>
   predict_image toy_extern absent_world text_upload =
     (Inr (ErrorBody ''Model not loaded or prediction failed''), absent_world)"
  by (simp add: absent_world_model toy_decode_text predict_image_def
      preprocess_no_model[OF absent_world_model] bind_def)

text \<open>
  C4, amended. With an absent classifier the pipeline stops at its first statement, before
  decoding and normalising: whatever the decoder and the resize would do (even raise), the
  result of \<open>preprocess_and_predict\<close> is \<open>None\<close> and the endpoint answers with the error
  body of the absent classifier.
\<close>

theorem absent_model_skips_decoding:
  assumes "model w = None"
  shows "preprocess_and_predict (ex\<lparr>cv2_imdecode := d, cv2_resize := rs\<rparr>) w bs = (Inr None, w) \<and>
         predict_image (ex\<lparr>cv2_imdecode := d, cv2_resize := rs\<rparr>) w file =
           (Inr (ErrorBody ''Model not loaded or prediction failed''), w)"
  using assms by (simp add: predict_image_def preprocess_no_model bind_def)

theorem absent_model_skips_decoding_witness:
  "model absent_world = None \<and>
   preprocess_and_predict (toy_extern\<lparr>cv2_imdecode := (\<lambda>bs. Inl CvError), cv2_resize := (\<lambda>i s. [])\<rparr>)
      absent_world (content text_upload) = (Inr None, absent_world) \<and>
   predict_image (toy_extern\<lparr>cv2_imdecode := (\<lambda>bs. Inl CvError), cv2_resize := (\<lambda>i s. [])\<rparr>)
      absent_world text_upload =
     (Inr (ErrorBody ''Model not loaded or prediction failed''), absent_world)"
  using absent_model_skips_decoding[OF absent_world_model,
      of "\<lambda>i s. []" "\<lambda>bs. Inl CvError" toy_extern "content text_upload" text_upload]
  by (simp add: absent_world_model)

section \<open>Byte arithmetic of the overlay\<close>

lemma astype_intensity:
  assumes "0 \<le> v" and "v \<le> 1"
  shows "astype_uint8 (v * 255) = intensity v"
proof -
  have "0 \<le> v * 255" using assms by simp
  then have "0 \<le> \<lfloor>v * 255\<rfloor>" by simp
  then show ?thesis using \<open>0 \<le> v * 255\<close> by (simp add: astype_uint8_def intensity_def)
qed

lemma unat_byte_of_nat: "n \<le> 255 \<Longrightarrow> unat (of_nat n :: byte) = n"
  by (simp add: unat_of_nat)

lemma intensity_floor:
  assumes "0 \<le> v" and "v \<le> 1"
  shows "int (unat (intensity v)) = \<lfloor>v * 255\<rfloor>"
proof -
  have nn: "0 \<le> \<lfloor>v * 255\<rfloor>" using assms by simp
  have "v * 255 \<le> 255" using assms by simp
  then have le: "\<lfloor>v * 255\<rfloor> \<le> 255" by (simp add: floor_le_iff)
  have "nat \<lfloor>v * 255\<rfloor> \<le> 255" using nn le by linarith
  then have "unat (of_nat (nat \<lfloor>v * 255\<rfloor>) :: byte) = nat \<lfloor>v * 255\<rfloor>"
    by (rule unat_byte_of_nat)
  then show ?thesis using nn by (simp add: intensity_def)
qed

lemma unat_byte_le: "unat (b :: byte) \<le> 255"
  using unsigned_less[of b, where 'a = nat] by simp

lemma fifth_floor:
  fixes n :: nat
  shows "\<lfloor>real n / 5\<rfloor> = int (n div 5)" and "real n / 5 = real (n div 5) + real (n mod 5) / 5"
proof -
  show "\<lfloor>real n / 5\<rfloor> = int (n div 5)"
    by (metis floor_divide_of_nat_eq of_nat_numeral)
  have "real n = real (5 * (n div 5) + n mod 5)" by simp
  also have "\<dots> = 5 * real (n div 5) + real (n mod 5)"
    by (simp only: of_nat_add of_nat_mult of_nat_numeral)
  finally show "real n / 5 = real (n div 5) + real (n mod 5) / 5" by linarith
qed

lemma cvRound_fifths:
  fixes n :: nat
  shows "cvRound (real n / 5) = round (real n / 5)"
proof -
  define q where "q = n div 5"
  define r where "r = n mod 5"
  define x where "x = real n / 5"
  have fl: "\<lfloor>x\<rfloor> = int q" and xe: "x = real q + real r / 5"
    unfolding x_def q_def r_def by (rule fifth_floor)+
  have qq: "real_of_int (int q) = real q" by simp
  have r5: "r < 5" unfolding r_def by simp
  have fr': "x - real q = real r / 5" using xe by linarith
  have cv: "cvRound x =
      (if x - real q < 1 / 2 then int q
       else if 1 / 2 < x - real q then int q + 1
       else if even (int q) then int q else int q + 1)"
    by (simp add: cvRound_def fl Let_def)
  show "cvRound (real n / 5) = round (real n / 5)"
    unfolding x_def[symmetric]
  proof (cases "r \<le> 2")
    case True
    then have "real r \<le> 2" by simp
    then have lt: "real r / 5 < 1 / 2" by linarith
    have "round x = int q"
      by (rule round_unique) (use lt xe qq in linarith)+
    moreover have "cvRound x = int q"
      using lt unfolding cv fr' by simp
    ultimately show "cvRound x = round x" by simp
  next
    case False
    then have "3 \<le> r" by simp
    then have "3 \<le> real r" by simp
    then have gt: "1 / 2 < real r / 5" by linarith
    have "real r < 5" using r5 by simp
    then have lt1: "real r / 5 < 1" by linarith
    have q1: "real_of_int (int q + 1) = real q + 1" by simp
    have "round x = int q + 1"
      by (rule round_unique) (use gt lt1 xe q1 in linarith)+
    moreover have "cvRound x = int q + 1"
      using gt unfolding cv fr' by simp
    ultimately show "cvRound x = round x" by simp
  qed
qed

lemma round_byte_range:
  fixes a b :: nat
  assumes "a \<le> 255" and "b \<le> 255"
  shows "0 \<le> round (0.4 * real a + 0.6 * real b)" and "round (0.4 * real a + 0.6 * real b) \<le> 255"
proof -
  let ?x = "0.4 * real a + 0.6 * real b"
  have a: "real a \<le> 255" and b: "real b \<le> 255" using assms by simp_all
  have nn: "0 \<le> ?x" by simp
  have le: "?x \<le> 255" using a b by linarith
  show "0 \<le> round ?x" using nn by (simp add: round_def)
  have "?x + 1 / 2 < 256" using le by linarith
  then have "\<lfloor>?x + 1 / 2\<rfloor> < 256" by (simp only: floor_less_iff)
  then show "round ?x \<le> 255" by (simp add: round_def)
qed

lemma blend_nat:
  fixes a b :: nat
  assumes "a \<le> 255" and "b \<le> 255"
  shows "saturate_uint8 (cvRound (real a * 0.4 + real b * 0.6 + 0)) =
         (of_nat (nat (round (0.4 * real a + 0.6 * real b))) :: byte)"
proof -
  let ?x = "0.4 * real a + 0.6 * real b"
  have x: "real a * 0.4 + real b * 0.6 + 0 = real (2 * a + 3 * b) / 5" by simp
  have x': "?x = real (2 * a + 3 * b) / 5" by simp
  have cv: "cvRound (real a * 0.4 + real b * 0.6 + 0) = round ?x"
    unfolding x x' by (rule cvRound_fifths)
  have sat: "saturate_uint8 (round ?x) = (of_nat (nat (round ?x)) :: byte)"
    using round_byte_range[OF assms] by (simp add: saturate_uint8_def)
  show ?thesis unfolding cv by (rule sat)
qed

lemma blend_weighted: "blend 0.4 0.6 0 h c = weighted h c"
  unfolding blend_def weighted_def by (rule blend_nat) (rule unat_byte_le)+

lemma weighted_nat:
  fixes a b :: nat
  assumes "a \<le> 255" and "b \<le> 255"
  shows "\<bar>real (unat (of_nat (nat (round (0.4 * real a + 0.6 * real b))) :: byte)) -
          (0.4 * real a + 0.6 * real b)\<bar> \<le> 1 / 2"
proof -
  let ?x = "0.4 * real a + 0.6 * real b"
  note r = round_byte_range[OF assms]
  have "nat (round ?x) \<le> 255" using r by linarith
  then have u: "unat (of_nat (nat (round ?x)) :: byte) = nat (round ?x)"
    by (rule unat_byte_of_nat)
  have "real (nat (round ?x)) = real_of_int (round ?x)" using r(1) by simp
  then show ?thesis using of_int_round_abs_le[of ?x] unfolding u by linarith
qed

lemma weighted_nearest:
  "\<bar>real (unat (weighted h c)) - (0.4 * real (unat h) + 0.6 * real (unat c))\<bar> \<le> 1 / 2"
  unfolding weighted_def by (rule weighted_nat) (rule unat_byte_le)+

section \<open>The explanation image\<close>

lemma Gradcam_clone:
  assumes "model w = Some a"
  shows "Gradcam w (model w) ReplaceToLinear True =
           (Inr (length (heap w)), w\<lparr>heap := heap w @ [(heap w ! a)\<lparr>head_activation := Linear\<rparr>]\<rparr>)"
  using assms by (simp add: Gradcam_def clone_model_def ReplaceToLinear_def)

lemma blend_weighted_norm: "blend (2 / 5) (3 / 5) 0 h c = weighted h c"
  using blend_weighted[of h c] by simp

lemma overlay_pixels:
  assumes "\<forall>s\<in>set cam. 0 \<le> s \<and> s \<le> 1"
      and "\<forall>(r, g, b)\<in>set t. 0 \<le> r \<and> r \<le> 1 \<and> 0 \<le> g \<and> g \<le> 1 \<and> 0 \<le> b \<and> b \<le> 1"
  shows "map (\<lambda>((a1, a2, a3), (b1, b2, b3)).
               (blend 0.4 0.6 0 a1 b1, blend 0.4 0.6 0 a2 b2, blend 0.4 0.6 0 a3 b3))
           (zip (map jet (map (\<lambda>v. astype_uint8 (v * 255)) cam))
                (map (\<lambda>(r, g, b). (astype_uint8 (r * 255), astype_uint8 (g * 255),
                                    astype_uint8 (b * 255))) t)) =
         spec_explanation_image jet cam t"
  using assms
proof (induction cam arbitrary: t)
  case Nil
  then show ?case by (simp add: spec_explanation_image_def)
next
  case (Cons s cam)
  show ?case
  proof (cases t)
    case Nil
    then show ?thesis by (simp add: spec_explanation_image_def)
  next
    case (Cons px t')
    obtain r g b where px: "px = (r, g, b)" by (cases px) auto
    have s: "0 \<le> s" "s \<le> 1" using Cons.prems(1) by simp_all
    have c: "0 \<le> r" "r \<le> 1" "0 \<le> g" "g \<le> 1" "0 \<le> b" "b \<le> 1"
      using Cons.prems(2) by (simp_all add: Cons px)
    have rest: "\<forall>s\<in>set cam. 0 \<le> s \<and> s \<le> 1"
      "\<forall>(r, g, b)\<in>set t'. 0 \<le> r \<and> r \<le> 1 \<and> 0 \<le> g \<and> g \<le> 1 \<and> 0 \<le> b \<and> b \<le> 1"
      using Cons.prems by (simp_all add: Cons)
    have ih: "map (\<lambda>((a1, a2, a3), (b1, b2, b3)).
               (blend 0.4 0.6 0 a1 b1, blend 0.4 0.6 0 a2 b2, blend 0.4 0.6 0 a3 b3))
           (zip (map jet (map (\<lambda>v. astype_uint8 (v * 255)) cam))
                (map (\<lambda>(r, g, b). (astype_uint8 (r * 255), astype_uint8 (g * 255),
                                    astype_uint8 (b * 255))) t')) =
         spec_explanation_image jet cam t'"
      by (rule Cons.IH[OF rest])
    show ?thesis
      using ih
      by (simp add: Cons px spec_explanation_image_def astype_intensity s c blend_weighted_norm
          split: prod.splits)
  qed
qed

text \<open>
  C7. Whenever the saliency computation returns a map over the pixels of the image, with
  values between 0 and 1, for a normalised image, the explanation image is the base64 text
  of the JPEG of \<open>spec_explanation_image\<close>: every saliency value is scaled to its integer
  part within 0--255 (no wrap-around), sent through the jet colour table, and every channel
  of the result is the integer nearest to 0.4 times the heat value plus 0.6 times the
  original's byte value (no saturation, no tie).
\<close>

theorem explanation_is_weighted_overlay:
  assumes "model w = Some a"
      and "gradcam_call ex ((heap w ! a)\<lparr>head_activation := Linear\<rparr>) [k] (t # ts) = Inr (cam # cams)"
      and "length cam = length t"
      and "\<forall>s\<in>set cam. 0 \<le> s \<and> s \<le> 1"
      and "\<forall>(r, g, b)\<in>set t. 0 \<le> r \<and> r \<le> 1 \<and> 0 \<le> g \<and> g \<le> 1 \<and> 0 \<le> b \<and> b \<le> 1"
  shows "fst (generate_gradcam ex w (t # ts) k) =
           Inr (b64encode ex (cv2_imencode_jpg ex
                  (spec_explanation_image (colormap_jet ex) cam t))) \<and>
         length (spec_explanation_image (colormap_jet ex) cam t) = length t \<and>
         (\<forall>s\<in>set cam. int (unat (intensity s)) = \<lfloor>s * 255\<rfloor> \<and> unat (intensity s) \<le> 255) \<and>
         (\<forall>h c. \<bar>real (unat (weighted h c)) - (0.4 * real (unat h) + 0.6 * real (unat c))\<bar> \<le> 1 / 2)"
proof -
  have g: "fst (generate_gradcam ex w (t # ts) k) =
           Inr (b64encode ex (cv2_imencode_jpg ex
                  (spec_explanation_image (colormap_jet ex) cam t)))"
    using assms(2,3) overlay_pixels[OF assms(4,5), of "colormap_jet ex"]
    by (simp add: generate_gradcam_def Gradcam_clone[OF assms(1)] bind_def index_def
        cv2_addWeighted_def)
  have l: "length (spec_explanation_image (colormap_jet ex) cam t) = length t"
    using assms(3) by (simp add: spec_explanation_image_def)
  have i: "\<forall>s\<in>set cam. int (unat (intensity s)) = \<lfloor>s * 255\<rfloor> \<and> unat (intensity s) \<le> 255"
  proof (intro ballI conjI)
    fix s assume "s \<in> set cam"
    with assms(4) have s: "0 \<le> s" "s \<le> 1" by simp_all
    show "int (unat (intensity s)) = \<lfloor>s * 255\<rfloor>" by (rule intensity_floor[OF s])
    show "unat (intensity s) \<le> 255" by (rule unat_byte_le)
  qed
  show ?thesis using g l i weighted_nearest by blast
qed

lemma half_model: "gradcam_call half_extern m sc [[(0, 0, 1)]] = Inr [[1 / 2]]"
  by (simp add: half_extern_def)

lemma half_intensity: "intensity (1 / 2) = 127" "intensity 0 = 0" "intensity 1 = 255"
  by (simp_all add: intensity_def)

lemma weighted_values: "weighted 0 0 = 0" "weighted 127 255 = 204"
  by (simp_all add: weighted_def round_def)

lemma half_image:
  "spec_explanation_image (colormap_jet half_extern) [1 / 2] [(0, 0, 1)] = [(0, 0, 204)]"
  by (simp add: spec_explanation_image_def half_extern_def toy_extern_def half_intensity weighted_values)

theorem explanation_is_weighted_overlay_witness:
  "model loaded_world = Some 0 \<and>
   gradcam_call half_extern ((heap loaded_world ! 0)\<lparr>head_activation := Linear\<rparr>) [4] [[(0, 0, 1)]]
     = Inr [[1 / 2]] \<and>
   length [1 / 2 :: real] = length [(0 :: real, 0 :: real, 1 :: real)] \<and>
   list_all (\<lambda>s. 0 \<le> s \<and> s \<le> 1) [1 / 2 :: real] \<and>
   list_all (\<lambda>(r, g, b). 0 \<le> r \<and> r \<le> 1 \<and> 0 \<le> g \<and> g \<le> 1 \<and> 0 \<le> b \<and> b \<le> 1) [(0 :: real, 0 :: real, 1 :: real)] \<and>
   spec_explanation_image (colormap_jet half_extern) [1 / 2] [(0, 0, 1)] = [(0, 0, 204)] \<and>
   fst (generate_gradcam half_extern loaded_world [[(0, 0, 1)]] 4) =
     Inr (b64encode half_extern (cv2_imencode_jpg half_extern [(0, 0, 204)])) \<and>
   int (unat (intensity (1 / 2))) = \<lfloor>(1 / 2 :: real) * 255\<rfloor> \<and>
   \<bar>real (unat (weighted 127 255)) - (0.4 * real (unat (127 :: byte)) + 0.6 * real (unat (255 :: byte)))\<bar> \<le> 1 / 2"
proof -
  have a: "\<forall>s\<in>set [1 / 2 :: real]. 0 \<le> s \<and> s \<le> 1" by simp
  have b: "\<forall>(r, g, b)\<in>set [(0 :: real, 0 :: real, 1 :: real)]. 0 \<le> r \<and> r \<le> 1 \<and> 0 \<le> g \<and> g \<le> 1 \<and> 0 \<le> b \<and> b \<le> 1"
    by simp
  have l: "length [1 / 2 :: real] = length [(0 :: real, 0 :: real, 1 :: real)]" by simp
  note th = explanation_is_weighted_overlay[OF loaded_world_model half_model l a b]
  have 1: "fst (generate_gradcam half_extern loaded_world [[(0, 0, 1)]] 4) =
     Inr (b64encode half_extern (cv2_imencode_jpg half_extern [(0, 0, 204)]))"
    using th by (simp add: half_image)
  have 2: "int (unat (intensity (1 / 2))) = \<lfloor>(1 / 2 :: real) * 255\<rfloor>"
    using th by simp
  have 3: "\<bar>real (unat (weighted 127 255)) - (0.4 * real (unat (127 :: byte)) + 0.6 * real (unat (255 :: byte)))\<bar> \<le> 1 / 2"
    using th by blast
  show ?thesis
    using 1 2 3 by (simp add: loaded_world_model half_model half_image)
qed

section \<open>The shared classifier is not modified\<close>

lemma generate_gradcam_world:
  assumes "model w = Some a"
  shows "snd (generate_gradcam ex w batch k) =
           w\<lparr>heap := heap w @ [(heap w ! a)\<lparr>head_activation := Linear\<rparr>]\<rparr>"
  by (simp add: generate_gradcam_def Gradcam_clone[OF assms])

lemma generate_gradcam_result:
  assumes "model w = Some a"
  shows "fst (generate_gradcam ex w batch k) =
           fst (generate_gradcam
                  (ex\<lparr>gradcam_call := (\<lambda>m. gradcam_call ex ((heap w ! a)\<lparr>head_activation := Linear\<rparr>))\<rparr>)
                  w batch k)"
  by (simp add: generate_gradcam_def Gradcam_clone[OF assms])

lemma Gradcam_without_clone:
  assumes "model w = Some a" and "a < length (heap w)"
  shows "heap (snd (Gradcam w (model w) ReplaceToLinear False)) ! a =
           (heap w ! a)\<lparr>head_activation := Linear\<rparr>"
  using assms by (simp add: Gradcam_def ReplaceToLinear_def)

lemma preprocess_world:
  "snd (preprocess_and_predict ex w bs) = w \<or>
   (\<exists>batch k. snd (preprocess_and_predict ex w bs) = snd (generate_gradcam ex w batch k))"
proof (cases "model w")
  case None
  then show ?thesis by (simp add: preprocess_no_model)
next
  case (Some a)
  show ?thesis
  proof (cases "bind (cv2_imdecode ex bs) cvtColor_BGR2RGB")
    case (Inl e)
    then show ?thesis by (simp add: preprocess_and_predict_def Some)
  next
    case (Inr img)
    define batch where "batch = [map (\<lambda>(r, g, b). (real (unat r) / 255, real (unat g) / 255,
                                         real (unat b) / 255)) (cv2_resize ex img (IMG_SIZE, IMG_SIZE))]"
    show ?thesis
    proof (cases "bind (index (predict (heap w ! a) batch) 0)
                          (\<lambda>prediction_array.
                             bind (np_argmax prediction_array)
                               (\<lambda>predicted_index. Inr (prediction_array, predicted_index)))")
      case (Inl e)
      then show ?thesis
        by (simp add: preprocess_and_predict_def Some Inr batch_def)
    next
      case r: (Inr pk)
      obtain p k where pk: "pk = (p, k)" by (cases pk) auto
      have "snd (preprocess_and_predict ex w bs) = snd (generate_gradcam ex w batch k)"
        using r
        by (simp add: preprocess_and_predict_def Some Inr batch_def pk
            split: prod.splits sum.splits)
      then show ?thesis by blast
    qed
  qed
qed

lemma predict_image_world:
  "snd (predict_image ex w file) = snd (preprocess_and_predict ex w (content file))"
  by (simp add: predict_image_def split: prod.splits)

text \<open>
  C8. An explanation computation appends one object to the heap, a copy of the shared
  classifier with the same weights and a linear final activation, and the gradient call
  receives that copy; the variable \<open>model\<close> and every object that existed before, the
  shared classifier among them, are unchanged. The same holds for a whole request.
\<close>

theorem attribution_leaves_classifier:
  assumes "model w = Some a" and "a < length (heap w)"
  shows "snd (generate_gradcam ex w batch k) =
           w\<lparr>heap := heap w @ [(heap w ! a)\<lparr>head_activation := Linear\<rparr>]\<rparr> \<and>
         model (snd (generate_gradcam ex w batch k)) = model w \<and>
         take (length (heap w)) (heap (snd (generate_gradcam ex w batch k))) = heap w \<and>
         heap (snd (generate_gradcam ex w batch k)) ! a = heap w ! a \<and>
         fst (generate_gradcam ex w batch k) =
           fst (generate_gradcam
                  (ex\<lparr>gradcam_call := (\<lambda>m. gradcam_call ex ((heap w ! a)\<lparr>head_activation := Linear\<rparr>))\<rparr>)
                  w batch k) \<and>
         model (snd (predict_image ex w file)) = model w \<and>
         heap (snd (predict_image ex w file)) ! a = heap w ! a"
proof -
  have g: "\<And>batch k. snd (generate_gradcam ex w batch k) =
           w\<lparr>heap := heap w @ [(heap w ! a)\<lparr>head_activation := Linear\<rparr>]\<rparr>"
    by (rule generate_gradcam_world[OF assms(1)])
  have keep: "(heap w @ [(heap w ! a)\<lparr>head_activation := Linear\<rparr>]) ! a = heap w ! a"
    using assms(2) by (simp add: nth_append)
  have p: "snd (predict_image ex w file) = w \<or>
           snd (predict_image ex w file) = w\<lparr>heap := heap w @ [(heap w ! a)\<lparr>head_activation := Linear\<rparr>]\<rparr>"
    using preprocess_world[of ex w "content file"] by (auto simp: predict_image_world g)
  have pm: "model (snd (predict_image ex w file)) = model w" using p by auto
  have ph: "heap (snd (predict_image ex w file)) ! a = heap w ! a" using p keep by auto
  show ?thesis
    using generate_gradcam_result[OF assms(1), of ex batch k] pm ph keep by (simp add: g)
qed

lemma loaded_world_alloc: "0 < length (heap loaded_world)"
  by (simp add: loaded_world_eq)

theorem attribution_leaves_classifier_witness:
  "model loaded_world = Some 0 \<and> 0 < length (heap loaded_world) \<and>
   snd (generate_gradcam toy_extern loaded_world [[(0, 0, 1)]] 4) =
     loaded_world\<lparr>heap := heap loaded_world @ [(heap loaded_world ! 0)\<lparr>head_activation := Linear\<rparr>]\<rparr> \<and>
   heap (snd (generate_gradcam toy_extern loaded_world [[(0, 0, 1)]] 4)) ! 0 =
     load_weights (build_model flat_weights) graded_weights \<and>
   head_activation (heap (snd (predict_image toy_extern loaded_world jpeg_upload)) ! 0) = Softmax \<and>
   model (snd (predict_image toy_extern loaded_world jpeg_upload)) = Some 0"
  using attribution_leaves_classifier[OF loaded_world_model loaded_world_alloc,
      of toy_extern "[[(0, 0, 1)]]" 4 jpeg_upload]
  by (simp add: loaded_world_model loaded_world_alloc)
     (simp add: loaded_world_eq load_weights_def build_model_def)

section \<open>The report renderer\<close>

















end
